theory Spec2Isabelle
  imports Main "HOL-Library.Word"
begin

unbundle bit_operations_syntax

section \<open>liblaunchpad.h: data model\<close>

text \<open>
  The library is a header-only C99 layer over ALSA raw MIDI for the Launchpad S.
  \<^item> \<open>unsigned char\<close> (\<open>LPNoteState\<close>, \<open>LPNoteKey\<close>, \<open>LPNoteColor\<close>,
    \<open>LPDoubleBufferingFlag\<close>, the message buffers) is \<open>8 word\<close>;
  \<^item> the macros \<open>LP_KEY\<close> and \<open>LP_COLOR\<close> compute in C \<open>int\<close>; their operands
    here are small, so they are modelled on \<open>int\<close> and narrowed with \<open>word_of_int\<close>
    where the source stores the result in an \<open>unsigned char\<close>;
  \<^item> the status codes returned by the public functions are C \<open>int\<close> constants that are
    only compared, never computed with: they are \<open>int\<close>;
  \<^item> values returned by ALSA keep their width: \<open>int\<close> is \<open>32 word\<close>,
    \<open>ssize_t\<close> and \<open>size_t\<close> are \<open>64 word\<close> (Linux LP64), read with \<open>sint\<close> where the
    source compares them as signed values.
\<close>

type_synonym u8 = "8 word"
type_synonym c_int = "32 word"
type_synonym ssize_t = "64 word"
type_synonym size_t = "64 word"

subsection \<open>Errors\<close>

definition LP_OK :: int where "LP_OK = 0"
definition LP_ERROR_LP_NULL :: int where "LP_ERROR_LP_NULL = -1"
definition LP_ERROR_OPENING_LAUNCHPAD :: int where "LP_ERROR_OPENING_LAUNCHPAD = -2"
definition LP_ERROR_UNINITIALIZED :: int where "LP_ERROR_UNINITIALIZED = -3"
definition LP_ERROR_MIDI_WRITE :: int where "LP_ERROR_MIDI_WRITE = -4"
definition LP_ERROR_MIDI_DRAIN :: int where "LP_ERROR_MIDI_DRAIN = -5"
definition LP_ERROR_MIDI_CLOSE :: int where "LP_ERROR_MIDI_CLOSE = -6"
definition LP_ERROR_ARGUMENT_NULL :: int where "LP_ERROR_ARGUMENT_NULL = -7"
definition LP_ERROR_MIDI_READ :: int where "LP_ERROR_MIDI_READ = -8"

subsection \<open>Grid, keys and colors\<close>

definition LP_ROWS :: nat where "LP_ROWS = 8"
definition LP_COLS :: nat where "LP_COLS = 8"

text \<open>\<^verbatim>\<open>enum { LP_NOTE_ON = 0x90, LP_NOTE_OFF = 0x80 };\<close> (enumeration constants are
  \<open>int\<close>; \<open>LPNoteState\<close> is \<open>unsigned char\<close>).\<close>

definition LP_NOTE_ON :: int where "LP_NOTE_ON = 0x90"
definition LP_NOTE_OFF :: int where "LP_NOTE_OFF = 0x80"

text \<open>\<^verbatim>\<open>#define LP_KEY(row, col) ((0x10 * row) + col)\<close>\<close>

definition LP_KEY :: "int \<Rightarrow> int \<Rightarrow> int" where
  "LP_KEY row col = (0x10 * row) + col"

text \<open>\<^verbatim>\<open>LP_COLOR_FLAG_CLEAR = (1<<2), LP_COLOR_FLAG_COPY = (1<<3)\<close>\<close>

definition LP_COLOR_FLAG_CLEAR :: int where "LP_COLOR_FLAG_CLEAR = push_bit 2 1"
definition LP_COLOR_FLAG_COPY :: int where "LP_COLOR_FLAG_COPY = push_bit 3 1"

definition LP_BRIGHTNESS_OFF :: int where "LP_BRIGHTNESS_OFF = 0"
definition LP_BRIGHTNESS_LOW :: int where "LP_BRIGHTNESS_LOW = 1"
definition LP_BRIGHTNESS_MEDIUM :: int where "LP_BRIGHTNESS_MEDIUM = 2"
definition LP_BRIGHTNESS_FULL :: int where "LP_BRIGHTNESS_FULL = 3"

text \<open>\<^verbatim>\<open>#define LP_COLOR(green, red, flags) ((0x10 * green) + red + flags)\<close>\<close>

definition LP_COLOR :: "int \<Rightarrow> int \<Rightarrow> int \<Rightarrow> int" where
  "LP_COLOR green red flags = (0x10 * green) + red + flags"

text \<open>
  The flag combinations a caller can form from the two members of \<open>LPNoteColorFlags\<close>:
  none, either one, or both joined with \<open>|\<close>.
\<close>

definition color_flag_combinations :: "int list" where
  "color_flag_combinations =
     [0, LP_COLOR_FLAG_CLEAR, LP_COLOR_FLAG_COPY, LP_COLOR_FLAG_CLEAR OR LP_COLOR_FLAG_COPY]"

subsection \<open>Notes, events, buffer flags, the session\<close>

text \<open>\<^verbatim>\<open>typedef struct { LPNoteState state; LPNoteKey key; LPNoteColor color; } LPNote;\<close>\<close>

record LPNote =
  state :: u8
  key :: u8
  color :: u8

text \<open>\<^verbatim>\<open>#define LP_NOTE(state, key, color) (LPNote){ state, key, color }\<close>: the three
  \<open>int\<close> operands are narrowed to \<open>unsigned char\<close> by the initializer.\<close>

definition LP_NOTE :: "int \<Rightarrow> int \<Rightarrow> int \<Rightarrow> LPNote" where
  "LP_NOTE st k c = \<lparr>state = word_of_int st, key = word_of_int k, color = word_of_int c\<rparr>"

datatype LPEventType =
  LP_EVENT_PRESSED | LP_EVENT_RELEASED | LP_EVENT_AUTOMAP_PRESSED | LP_EVENT_AUTOMAP_RELEASED

record LPEvent =
  type :: LPEventType
  note_x :: u8
  note_y :: u8

text \<open>The members of the \<open>LPDoubleBufferingFlag\<close> enum, as the \<open>unsigned char\<close> they are
  passed as.\<close>

definition LP_DOUBLE_BUFFERING_DISPLAY_0 :: u8 where "LP_DOUBLE_BUFFERING_DISPLAY_0 = 0"
definition LP_DOUBLE_BUFFERING_DISPLAY_1 :: u8 where "LP_DOUBLE_BUFFERING_DISPLAY_1 = 1"
definition LP_DOUBLE_BUFFERING_UPDATE_0 :: u8 where "LP_DOUBLE_BUFFERING_UPDATE_0 = 0"
definition LP_DOUBLE_BUFFERING_UPDATE_1 :: u8 where "LP_DOUBLE_BUFFERING_UPDATE_1 = push_bit 2 1"
definition LP_DOUBLE_BUFFERING_FLASH :: u8 where "LP_DOUBLE_BUFFERING_FLASH = push_bit 3 1"
definition LP_DOUBLE_BUFFERING_COPY :: u8 where "LP_DOUBLE_BUFFERING_COPY = push_bit 4 1"

text \<open>
  The roles a flag byte assigns, read off the enum's layout: bit 0 is the displayed
  buffer, bit 2 the updated buffer, bit 4 the copy request.
\<close>

definition display_buffer :: "u8 \<Rightarrow> u8" where
  "display_buffer flags = flags AND 1"

definition update_buffer :: "u8 \<Rightarrow> u8" where
  "update_buffer flags = drop_bit 2 flags AND 1"

definition copy_requested :: "u8 \<Rightarrow> bool" where
  "copy_requested flags = (flags AND LP_DOUBLE_BUFFERING_COPY \<noteq> 0)"

text \<open>
  \<^verbatim>\<open>typedef struct { snd_rawmidi_t *midi_in; snd_rawmidi_t *midi_out; int current_buff; } LP;\<close>
  A \<open>snd_rawmidi_t *\<close> is an opaque address or \<open>NULL\<close> (\<open>None\<close>). An \<open>LP *\<close> argument
  is \<open>None\<close> for \<open>NULL\<close> and \<open>Some l\<close> for a pointer to a session holding \<open>l\<close>; every
  public function returns the session as the call leaves it.
\<close>

type_synonym handle = nat

record LP =
  midi_in :: "handle option"
  midi_out :: "handle option"
  current_buff :: int

section \<open>The raw MIDI transport\<close>

text \<open>
  ALSA is outside the library. It is a parameter of the model: a record of the five
  functions the library calls, each acting on a device state of any type \<open>'w\<close>. The
  calls the library makes are appended to a log, so that what reached the transport
  can be read off afterwards.
  \<^item> \<open>rm_open name flags in out\<close> receives the current contents of the two handle
    slots it is given pointers to, and returns its status and their new contents;
  \<^item> \<open>rm_write h buf\<close> returns the \<open>ssize_t\<close> count or error;
  \<^item> \<open>rm_read h n\<close> returns the \<open>ssize_t\<close> count or error, and the contents of the
    caller's 3-byte buffer after the call.
\<close>

record 'w rawmidi =
  rm_open :: "string \<Rightarrow> int \<Rightarrow> handle option \<Rightarrow> handle option \<Rightarrow> 'w
                \<Rightarrow> (c_int \<times> handle option \<times> handle option) \<times> 'w"
  rm_write :: "handle \<Rightarrow> u8 list \<Rightarrow> 'w \<Rightarrow> ssize_t \<times> 'w"
  rm_drain :: "handle \<Rightarrow> 'w \<Rightarrow> c_int \<times> 'w"
  rm_close :: "handle \<Rightarrow> 'w \<Rightarrow> c_int \<times> 'w"
  rm_read :: "handle \<Rightarrow> nat \<Rightarrow> 'w \<Rightarrow> (ssize_t \<times> u8 \<times> u8 \<times> u8) \<times> 'w"

datatype call =
  Open string int
  | Write handle "u8 list"
  | Drain handle
  | Close handle
  | Read handle nat

record 'w world =
  log :: "call list"
  dev :: 'w

text \<open>Constants of the system headers: \<open>EAGAIN\<close> of Linux \<open>errno.h\<close> and
  \<open>SND_RAWMIDI_NONBLOCK\<close> of \<open>alsa/rawmidi.h\<close>.\<close>

definition EAGAIN :: int where "EAGAIN = 11"
definition SND_RAWMIDI_NONBLOCK :: int where "SND_RAWMIDI_NONBLOCK = 0x0002"

definition snd_rawmidi_open ::
  "'w rawmidi \<Rightarrow> string \<Rightarrow> int \<Rightarrow> handle option \<Rightarrow> handle option \<Rightarrow> 'w world
     \<Rightarrow> (c_int \<times> handle option \<times> handle option) \<times> 'w world" where
  "snd_rawmidi_open T name flags inp outp s =
     (case rm_open T name flags inp outp (dev s) of
        (r, d) \<Rightarrow> (r, \<lparr>log = log s @ [Open name flags], dev = d\<rparr>))"

definition snd_rawmidi_write ::
  "'w rawmidi \<Rightarrow> handle \<Rightarrow> u8 list \<Rightarrow> 'w world \<Rightarrow> ssize_t \<times> 'w world" where
  "snd_rawmidi_write T h buf s =
     (case rm_write T h buf (dev s) of
        (r, d) \<Rightarrow> (r, \<lparr>log = log s @ [Write h buf], dev = d\<rparr>))"

definition snd_rawmidi_drain :: "'w rawmidi \<Rightarrow> handle \<Rightarrow> 'w world \<Rightarrow> c_int \<times> 'w world" where
  "snd_rawmidi_drain T h s =
     (case rm_drain T h (dev s) of
        (r, d) \<Rightarrow> (r, \<lparr>log = log s @ [Drain h], dev = d\<rparr>))"

definition snd_rawmidi_close :: "'w rawmidi \<Rightarrow> handle \<Rightarrow> 'w world \<Rightarrow> c_int \<times> 'w world" where
  "snd_rawmidi_close T h s =
     (case rm_close T h (dev s) of
        (r, d) \<Rightarrow> (r, \<lparr>log = log s @ [Close h], dev = d\<rparr>))"

definition snd_rawmidi_read ::
  "'w rawmidi \<Rightarrow> handle \<Rightarrow> nat \<Rightarrow> 'w world \<Rightarrow> (ssize_t \<times> u8 \<times> u8 \<times> u8) \<times> 'w world" where
  "snd_rawmidi_read T h n s =
     (case rm_read T h n (dev s) of
        (r, d) \<Rightarrow> (r, \<lparr>log = log s @ [Read h n], dev = d\<rparr>))"

text \<open>The buffers handed to \<open>snd_rawmidi_write\<close>, each with the handle it was written
  to, in call order.\<close>

fun written :: "call list \<Rightarrow> (handle \<times> u8 list) list" where
  "written [] = []"
| "written (Write h buf # cs) = (h, buf) # written cs"
| "written (c # cs) = written cs"

section \<open>The public functions\<close>

text \<open>
  Each function takes the transport, its C arguments and the world, and returns the C
  return value, the session as the call leaves it and the world after the call. The
  write-then-drain tail shared by six functions is \<open>write_and_drain\<close>:
  \<^verbatim>\<open>
  size_t bytes = snd_rawmidi_write(lp->midi_out, msg_buff, sizeof(msg_buff));
  if (bytes != sizeof msg_buff) return LP_ERROR_MIDI_WRITE;
  if (snd_rawmidi_drain(lp->midi_out) < 0) return LP_ERROR_MIDI_DRAIN;
  return LP_OK;
  \<close>
  with the expected count (3, or \<open>3 * LP_ROWS * LP_COLS\<close>) as the source writes it.
\<close>

definition write_and_drain ::
  "'w rawmidi \<Rightarrow> handle \<Rightarrow> u8 list \<Rightarrow> size_t \<Rightarrow> 'w world \<Rightarrow> int \<times> 'w world" where
  "write_and_drain T h msg_buff expected s =
     (case snd_rawmidi_write T h msg_buff s of
        (bytes, s1) \<Rightarrow>
          if bytes \<noteq> expected then (LP_ERROR_MIDI_WRITE, s1)
          else (case snd_rawmidi_drain T h s1 of
                  (r, s2) \<Rightarrow>
                    if sint r < 0 then (LP_ERROR_MIDI_DRAIN, s2) else (LP_OK, s2)))"

definition lp_open ::
  "'w rawmidi \<Rightarrow> LP option \<Rightarrow> string \<Rightarrow> bool \<Rightarrow> 'w world \<Rightarrow> int \<times> LP option \<times> 'w world" where
  "lp_open T lp devicename nonblocking s =
     (case lp of
        None \<Rightarrow> (LP_ERROR_LP_NULL, lp, s)
      | Some l \<Rightarrow>
          let flags = (if nonblocking then 0 OR SND_RAWMIDI_NONBLOCK else 0) in
          (case snd_rawmidi_open T devicename flags (midi_in l) (midi_out l) s of
             ((r, inp, outp), s1) \<Rightarrow>
               let l1 = l\<lparr>midi_in := inp, midi_out := outp\<rparr> in
               if sint r < 0 then (LP_ERROR_OPENING_LAUNCHPAD, Some l1, s1)
               else (LP_OK, Some l1, s1)))"

definition lp_reset :: "'w rawmidi \<Rightarrow> LP option \<Rightarrow> 'w world \<Rightarrow> int \<times> LP option \<times> 'w world" where
  "lp_reset T lp s =
     (case lp of
        None \<Rightarrow> (LP_ERROR_LP_NULL, lp, s)
      | Some l \<Rightarrow>
          (case midi_out l of
             None \<Rightarrow> (LP_ERROR_UNINITIALIZED, lp, s)
           | Some h \<Rightarrow>
               (case write_and_drain T h [0xB0, 0, 0] 3 s of (r, s1) \<Rightarrow> (r, lp, s1))))"

text \<open>
  \<open>lp_close\<close> is two guarded closes in sequence, each returning at once when the
  transport reports an error; \<open>lp_close_out\<close> is the second of them with the final
  \<^verbatim>\<open>return LP_OK\<close>. The handles in the session are left as they were.
\<close>

definition lp_close_out ::
  "'w rawmidi \<Rightarrow> LP option \<Rightarrow> LP \<Rightarrow> 'w world \<Rightarrow> int \<times> LP option \<times> 'w world" where
  "lp_close_out T lp l s =
     (case midi_out l of
        None \<Rightarrow> (LP_OK, lp, s)
      | Some h \<Rightarrow>
          (case snd_rawmidi_close T h s of
             (r, s1) \<Rightarrow>
               if sint r < 0 then (LP_ERROR_MIDI_CLOSE, lp, s1) else (LP_OK, lp, s1)))"

definition lp_close :: "'w rawmidi \<Rightarrow> LP option \<Rightarrow> 'w world \<Rightarrow> int \<times> LP option \<times> 'w world" where
  "lp_close T lp s =
     (case lp of
        None \<Rightarrow> (LP_OK, lp, s)
      | Some l \<Rightarrow>
          (case midi_in l of
             None \<Rightarrow> lp_close_out T lp l s
           | Some h \<Rightarrow>
               (case snd_rawmidi_close T h s of
                  (r, s1) \<Rightarrow>
                    if sint r < 0 then (LP_ERROR_MIDI_CLOSE, lp, s1)
                    else lp_close_out T lp l s1)))"

text \<open>\<^verbatim>\<open>unsigned char msg_buff[3] = { note.state, note.key, note.color };\<close>\<close>

definition command_buff :: "LPNote \<Rightarrow> u8 list" where
  "command_buff note = [state note, key note, color note]"

definition lp_set_note ::
  "'w rawmidi \<Rightarrow> LP option \<Rightarrow> LPNote \<Rightarrow> 'w world \<Rightarrow> int \<times> LP option \<times> 'w world" where
  "lp_set_note T lp note s =
     (case lp of
        None \<Rightarrow> (LP_ERROR_LP_NULL, lp, s)
      | Some l \<Rightarrow>
          (case midi_out l of
             None \<Rightarrow> (LP_ERROR_UNINITIALIZED, lp, s)
           | Some h \<Rightarrow>
               (case write_and_drain T h (command_buff note) 3 s of (r, s1) \<Rightarrow> (r, lp, s1))))"

text \<open>
  \<open>memcpy dst off src n\<close> is \<^verbatim>\<open>memcpy(dst + off, src, n)\<close>. The two \<open>for\<close> loops of
  \<open>lp_set_notes\<close> are \<open>cols_loop\<close> (over \<open>j\<close>, inner) and \<open>rows_loop\<close> (over \<open>i\<close>,
  outer). The source reads \<open>notes[i * LP_ROWS + j]\<close> without a bound check: the
  parameter is declared as an array of \<open>LP_ROWS * LP_COLS\<close> notes, and a shorter array
  is undefined behaviour in C (\<open>!\<close> out of range is unspecified here).
\<close>

fun memcpy :: "u8 list \<Rightarrow> nat \<Rightarrow> u8 list \<Rightarrow> nat \<Rightarrow> u8 list" where
  "memcpy dst off src 0 = dst"
| "memcpy dst off src (Suc n) = (memcpy dst off src n)[off + n := src ! n]"

function cols_loop :: "LPNote list \<Rightarrow> nat \<Rightarrow> nat \<Rightarrow> u8 list \<Rightarrow> u8 list" where
  "cols_loop notes i j msg_buff =
     (if j < LP_COLS
      then cols_loop notes i (j + 1)
             (memcpy msg_buff (3 * (i * LP_COLS + j)) (command_buff (notes ! (i * LP_ROWS + j))) 3)
      else msg_buff)"
  by pat_completeness auto
termination
  by (relation "measure (\<lambda>(notes, i, j, msg_buff). LP_COLS - j)") auto

function rows_loop :: "LPNote list \<Rightarrow> nat \<Rightarrow> u8 list \<Rightarrow> u8 list" where
  "rows_loop notes i msg_buff =
     (if i < LP_ROWS
      then rows_loop notes (i + 1) (cols_loop notes i 0 msg_buff)
      else msg_buff)"
  by pat_completeness auto
termination
  by (relation "measure (\<lambda>(notes, i, msg_buff). LP_ROWS - i)") auto

declare cols_loop.simps [simp del] rows_loop.simps [simp del]

text \<open>\<open>msg_buff\<close> is an uninitialised local array of \<open>3 * LP_ROWS * LP_COLS\<close> bytes;
  the loops overwrite every cell of it before it is written out (\<open>grid_msg_buff_layout\<close>
  below), so its initial contents, here zeros, do not matter.\<close>

definition grid_msg_buff :: "LPNote list \<Rightarrow> u8 list" where
  "grid_msg_buff notes = rows_loop notes 0 (replicate (3 * LP_ROWS * LP_COLS) 0)"

definition lp_set_notes ::
  "'w rawmidi \<Rightarrow> LP option \<Rightarrow> LPNote list option \<Rightarrow> 'w world \<Rightarrow> int \<times> LP option \<times> 'w world" where
  "lp_set_notes T lp notes s =
     (case lp of
        None \<Rightarrow> (LP_ERROR_LP_NULL, lp, s)
      | Some l \<Rightarrow>
          (case midi_out l of
             None \<Rightarrow> (LP_ERROR_UNINITIALIZED, lp, s)
           | Some h \<Rightarrow>
               (case notes of
                  None \<Rightarrow> (LP_ERROR_ARGUMENT_NULL, lp, s)
                | Some ns \<Rightarrow>
                    (case write_and_drain T h (grid_msg_buff ns)
                            (of_nat (3 * LP_ROWS * LP_COLS)) s of
                       (r, s1) \<Rightarrow> (r, lp, s1)))))"

definition lp_set_double_buffering_flags ::
  "'w rawmidi \<Rightarrow> LP option \<Rightarrow> u8 \<Rightarrow> 'w world \<Rightarrow> int \<times> LP option \<times> 'w world" where
  "lp_set_double_buffering_flags T lp flags s =
     (case lp of
        None \<Rightarrow> (LP_ERROR_LP_NULL, lp, s)
      | Some l \<Rightarrow>
          (case midi_out l of
             None \<Rightarrow> (LP_ERROR_UNINITIALIZED, lp, s)
           | Some h \<Rightarrow>
               (case write_and_drain T h [0xB0, 0, flags + 0x20] 3 s of
                  (r, s1) \<Rightarrow> (r, lp, s1))))"

definition lp_swap_buffers ::
  "'w rawmidi \<Rightarrow> LP option \<Rightarrow> 'w world \<Rightarrow> int \<times> LP option \<times> 'w world" where
  "lp_swap_buffers T lp s =
     (case lp of
        None \<Rightarrow> (LP_ERROR_LP_NULL, lp, s)
      | Some l \<Rightarrow>
          (case midi_out l of
             None \<Rightarrow> (LP_ERROR_UNINITIALIZED, lp, s)
           | Some h \<Rightarrow>
               if current_buff l = 0
               then lp_set_double_buffering_flags T (Some (l\<lparr>current_buff := 1\<rparr>))
                      (LP_DOUBLE_BUFFERING_DISPLAY_1 OR LP_DOUBLE_BUFFERING_UPDATE_0
                         OR LP_DOUBLE_BUFFERING_COPY) s
               else lp_set_double_buffering_flags T (Some (l\<lparr>current_buff := 0\<rparr>))
                      (LP_DOUBLE_BUFFERING_DISPLAY_0 OR LP_DOUBLE_BUFFERING_UPDATE_1
                         OR LP_DOUBLE_BUFFERING_COPY) s))"

text \<open>
  The decoding block of \<open>lp_check_event\<close>, run on a complete 3-byte read. The \<open>event\<close>
  pointer may be \<open>NULL\<close> (\<open>None\<close>); the arithmetic is C \<open>int\<close> arithmetic on the
  promoted bytes, narrowed to \<open>unsigned char\<close> by the assignment.
\<close>

definition decode_event :: "LPEvent option \<Rightarrow> u8 \<Rightarrow> u8 \<Rightarrow> u8 \<Rightarrow> LPEvent option" where
  "decode_event event status note velocity =
     (case event of
        None \<Rightarrow> None
      | Some e \<Rightarrow>
          if status = 0x90 then
            Some (e\<lparr>note_x := word_of_int ((uint note - (uint note div 16) * 16) mod 9),
                    note_y := word_of_int (uint note div 16),
                    type := (if uint velocity > 0 then LP_EVENT_PRESSED else LP_EVENT_RELEASED)\<rparr>)
          else if status = 0xB0 then
            Some (e\<lparr>note_x := word_of_int (uint note - 0x68),
                    note_y := 0,
                    type := (if uint velocity > 0 then LP_EVENT_AUTOMAP_PRESSED
                             else LP_EVENT_AUTOMAP_RELEASED)\<rparr>)
          else Some e)"

text \<open>\<^verbatim>\<open>int err = snd_rawmidi_read(...)\<close> narrows the \<open>ssize_t\<close> result to \<open>int\<close>.\<close>

definition lp_check_event ::
  "'w rawmidi \<Rightarrow> LP option \<Rightarrow> LPEvent option \<Rightarrow> 'w world
     \<Rightarrow> int \<times> LP option \<times> LPEvent option \<times> 'w world" where
  "lp_check_event T lp event s =
     (case lp of
        None \<Rightarrow> (LP_ERROR_LP_NULL, lp, event, s)
      | Some l \<Rightarrow>
          (case midi_in l of
             None \<Rightarrow> (LP_ERROR_UNINITIALIZED, lp, event, s)
           | Some h \<Rightarrow>
               (case snd_rawmidi_read T h 3 s of
                  ((r, b0, b1, b2), s1) \<Rightarrow>
                    let err = (ucast r :: c_int) in
                    if sint err = - EAGAIN then (0, lp, event, s1)
                    else if sint err < 0 then (LP_ERROR_MIDI_READ, lp, event, s1)
                    else if sint err = 3 then (1, lp, decode_event event b0 b1 b2, s1)
                    else (0, lp, event, s1))))"

definition lp_enable_flashing ::
  "'w rawmidi \<Rightarrow> LP option \<Rightarrow> 'w world \<Rightarrow> int \<times> LP option \<times> 'w world" where
  "lp_enable_flashing T lp s =
     (case lp of
        None \<Rightarrow> (LP_ERROR_LP_NULL, lp, s)
      | Some l \<Rightarrow>
          (case midi_out l of
             None \<Rightarrow> (LP_ERROR_UNINITIALIZED, lp, s)
           | Some h \<Rightarrow>
               (case write_and_drain T h [0xB0, 0, 0x28] 3 s of (r, s1) \<Rightarrow> (r, lp, s1))))"

definition lp_disable_flashing ::
  "'w rawmidi \<Rightarrow> LP option \<Rightarrow> 'w world \<Rightarrow> int \<times> LP option \<times> 'w world" where
  "lp_disable_flashing T lp s =
     (case lp of
        None \<Rightarrow> (LP_ERROR_LP_NULL, lp, s)
      | Some l \<Rightarrow>
          (case midi_out l of
             None \<Rightarrow> (LP_ERROR_UNINITIALIZED, lp, s)
           | Some h \<Rightarrow>
               (case write_and_drain T h [0xB0, 0, 0x21] 3 s of (r, s1) \<Rightarrow> (r, lp, s1))))"

section \<open>A scripted transport\<close>

text \<open>
  A transport with no state that answers every call with a fixed value: \<open>rm_open\<close>
  with status \<open>o_r\<close> and the handles 1 (input) and 2 (output), \<open>rm_write\<close> with
  \<open>w_r\<close>, \<open>rm_drain\<close> with \<open>d_r\<close>, \<open>rm_close\<close> of handle \<open>h\<close> with \<open>c_r h\<close>, and
  \<open>rm_read\<close> with \<open>r_r\<close>. It stands for the device in the concrete runs below.
\<close>

definition scripted ::
  "c_int \<Rightarrow> ssize_t \<Rightarrow> c_int \<Rightarrow> (handle \<Rightarrow> c_int) \<Rightarrow> (ssize_t \<times> u8 \<times> u8 \<times> u8) \<Rightarrow> unit rawmidi" where
  "scripted o_r w_r d_r c_r r_r =
     \<lparr>rm_open = (\<lambda>name flags inp outp u. ((o_r, Some 1, Some 2), u)),
      rm_write = (\<lambda>h buf u. (w_r, u)),
      rm_drain = (\<lambda>h u. (d_r, u)),
      rm_close = (\<lambda>h u. (c_r h, u)),
      rm_read = (\<lambda>h n u. (r_r, u))\<rparr>"

definition world0 :: "unit world" where
  "world0 = \<lparr>log = [], dev = ()\<rparr>"

section \<open>Coordinate and color arithmetic\<close>

lemmas LP_DOUBLE_BUFFERING_defs =
  LP_DOUBLE_BUFFERING_DISPLAY_0_def LP_DOUBLE_BUFFERING_DISPLAY_1_def
  LP_DOUBLE_BUFFERING_UPDATE_0_def LP_DOUBLE_BUFFERING_UPDATE_1_def
  LP_DOUBLE_BUFFERING_FLASH_def LP_DOUBLE_BUFFERING_COPY_def

lemma LP_KEY_div: "0 \<le> col \<Longrightarrow> col < 16 \<Longrightarrow> LP_KEY row col div 16 = row"
  by (simp add: LP_KEY_def)

lemma LP_KEY_mod: "0 \<le> col \<Longrightarrow> col < 16 \<Longrightarrow> LP_KEY row col mod 16 = col"
  by (simp add: LP_KEY_def)

text \<open>
  C8. For all row and col in [0,7], \<open>LP_KEY\<close> is injective (distinct pairs give distinct
  keys) and its result lies in [0,127].
\<close>

theorem LP_KEY_injective_and_bounded:
  assumes "0 \<le> row" "row \<le> 7" "0 \<le> col" "col \<le> 7"
    and "0 \<le> row'" "row' \<le> 7" "0 \<le> col'" "col' \<le> 7"
  shows "(LP_KEY row col = LP_KEY row' col' \<longrightarrow> row = row' \<and> col = col')
       \<and> 0 \<le> LP_KEY row col \<and> LP_KEY row col \<le> 127"
proof -
  have inj: "row = row' \<and> col = col'" if eq: "LP_KEY row col = LP_KEY row' col'"
  proof -
    have "LP_KEY row col div 16 = row" "LP_KEY row' col' div 16 = row'"
      using assms by (simp_all add: LP_KEY_div)
    moreover have "LP_KEY row col mod 16 = col" "LP_KEY row' col' mod 16 = col'"
      using assms by (simp_all add: LP_KEY_mod)
    ultimately show ?thesis using eq by simp
  qed
  have "0 \<le> LP_KEY row col" "LP_KEY row col \<le> 127"
    using assms by (simp_all add: LP_KEY_def)
  with inj show ?thesis by blast
qed

theorem LP_KEY_injective_and_bounded_witness:
  "(0::int) \<le> 2 \<and> (2::int) \<le> 7 \<and> (0::int) \<le> 5 \<and> (5::int) \<le> 7
   \<and> LP_KEY 2 5 \<noteq> LP_KEY 5 2 \<and> 0 \<le> LP_KEY 2 5 \<and> LP_KEY 2 5 \<le> 127"
  using LP_KEY_injective_and_bounded [of 2 5 5 2]
  by (simp add: LP_KEY_def)

lemma color_flag_values:
  "LP_COLOR_FLAG_CLEAR = 4" "LP_COLOR_FLAG_COPY = 8"
  "LP_COLOR_FLAG_CLEAR OR LP_COLOR_FLAG_COPY = 12"
  by (simp_all add: LP_COLOR_FLAG_CLEAR_def LP_COLOR_FLAG_COPY_def)

text \<open>
  C4, as stated: the flags \<open>CLEAR\<close> and \<open>COPY\<close> lie outside the range 0--15 and the
  brightness pair is recovered as \<open>green = color / 16\<close>, \<open>red = color % 16\<close>. Both flags
  are below 16, and red \<open>LOW\<close> with \<open>CLEAR\<close> gives \<open>color % 16 = 5\<close>, not 1.
\<close>

theorem LP_COLOR_flags_collide_counterexample:
  "0 \<le> LP_COLOR_FLAG_CLEAR \<and> LP_COLOR_FLAG_CLEAR \<le> 15
   \<and> 0 \<le> LP_COLOR_FLAG_COPY \<and> LP_COLOR_FLAG_COPY \<le> 15
   \<and> LP_COLOR LP_BRIGHTNESS_OFF LP_BRIGHTNESS_LOW LP_COLOR_FLAG_CLEAR mod 16 = 5
   \<and> LP_COLOR LP_BRIGHTNESS_OFF LP_BRIGHTNESS_LOW LP_COLOR_FLAG_CLEAR mod 16
       \<noteq> LP_BRIGHTNESS_LOW"
  by (simp add: LP_COLOR_def LP_COLOR_FLAG_CLEAR_def LP_COLOR_FLAG_COPY_def
        LP_BRIGHTNESS_OFF_def LP_BRIGHTNESS_LOW_def)

text \<open>
  C4, amended. \<open>CLEAR\<close> (4) and \<open>COPY\<close> (8) are multiples of 4 below 16: they lie
  outside the range 0--3 of the red brightness and below the weight 16 of green. So for
  every green and red in [0,3] and every flag combination, adding the flags to
  \<open>16 * green + red\<close> leaves the brightness pair recoverable, as \<open>green = color / 16\<close>
  and \<open>red = color % 4\<close>; \<open>color % 16\<close> is \<open>red + flags\<close>.
\<close>

theorem LP_COLOR_brightness_recoverable:
  assumes "0 \<le> green" "green \<le> 3" "0 \<le> red" "red \<le> 3"
    and "flags \<in> set color_flag_combinations"
  shows "LP_COLOR green red flags div 16 = green
       \<and> LP_COLOR green red flags mod 4 = red
       \<and> LP_COLOR green red flags mod 16 = red + flags
       \<and> 3 < LP_COLOR_FLAG_CLEAR \<and> LP_COLOR_FLAG_CLEAR < 16 \<and> LP_COLOR_FLAG_CLEAR mod 4 = 0
       \<and> 3 < LP_COLOR_FLAG_COPY \<and> LP_COLOR_FLAG_COPY < 16 \<and> LP_COLOR_FLAG_COPY mod 4 = 0"
proof -
  from assms(5) have f: "flags = 0 \<or> flags = 4 \<or> flags = 8 \<or> flags = 12"
    by (auto simp: color_flag_combinations_def color_flag_values)
  have "LP_COLOR green red flags div 16 = green"
    using assms(1-4) f by (auto simp: LP_COLOR_def)
  moreover have "LP_COLOR green red flags mod 4 = red"
  proof -
    have "LP_COLOR green red flags = red + 4 * (4 * green + flags div 4)"
      using f by (auto simp: LP_COLOR_def)
    then have "LP_COLOR green red flags mod 4 = red mod 4"
      by (simp only: mod_mult_self2)
    then show ?thesis using assms(3,4) by simp
  qed
  moreover have "LP_COLOR green red flags mod 16 = red + flags"
  proof -
    have "LP_COLOR green red flags = (red + flags) + 16 * green"
      by (simp add: LP_COLOR_def)
    then have "LP_COLOR green red flags mod 16 = (red + flags) mod 16"
      by (simp only: mod_mult_self2)
    then show ?thesis using assms(3,4) f by auto
  qed
  ultimately show ?thesis by (simp add: color_flag_values)
qed

theorem LP_COLOR_brightness_recoverable_witness:
  "(0::int) \<le> 2 \<and> (2::int) \<le> 3 \<and> (0::int) \<le> 1 \<and> (1::int) \<le> 3
   \<and> LP_COLOR_FLAG_CLEAR OR LP_COLOR_FLAG_COPY \<in> set color_flag_combinations
   \<and> LP_COLOR 2 1 (LP_COLOR_FLAG_CLEAR OR LP_COLOR_FLAG_COPY) = 45
   \<and> LP_COLOR 2 1 (LP_COLOR_FLAG_CLEAR OR LP_COLOR_FLAG_COPY) div 16 = 2
   \<and> LP_COLOR 2 1 (LP_COLOR_FLAG_CLEAR OR LP_COLOR_FLAG_COPY) mod 4 = 1"
  using LP_COLOR_brightness_recoverable [of 2 1 "LP_COLOR_FLAG_CLEAR OR LP_COLOR_FLAG_COPY"]
  by (simp add: color_flag_combinations_def LP_COLOR_def color_flag_values)

section \<open>What reaches the transport\<close>

lemma written_append: "written (xs @ ys) = written xs @ written ys"
  by (induction xs rule: written.induct) simp_all

lemma write_and_drain_written:
  "written (log (snd (write_and_drain T h msg n s))) = written (log s) @ [(h, msg)]"
proof (cases "rm_write T h msg (dev s)")
  case w: (Pair r d)
  show ?thesis
  proof (cases "rm_drain T h d")
    case (Pair r' d')
    with w show ?thesis
      by (simp add: write_and_drain_def snd_rawmidi_write_def snd_rawmidi_drain_def
          written_append)
  qed
qed

lemma write_and_drain_short:
  assumes "rm_write T h msg (dev s) = (n, d)" "n \<noteq> expected"
  shows "write_and_drain T h msg expected s
         = (LP_ERROR_MIDI_WRITE, \<lparr>log = log s @ [Write h msg], dev = d\<rparr>)"
  using assms by (simp add: write_and_drain_def snd_rawmidi_write_def)

lemma display1_update0_copy:
  "LP_DOUBLE_BUFFERING_DISPLAY_1 OR LP_DOUBLE_BUFFERING_UPDATE_0 OR LP_DOUBLE_BUFFERING_COPY
   = 0x11"
  by (simp add: LP_DOUBLE_BUFFERING_defs)

lemma display0_update1_copy:
  "LP_DOUBLE_BUFFERING_DISPLAY_0 OR LP_DOUBLE_BUFFERING_UPDATE_1 OR LP_DOUBLE_BUFFERING_COPY
   = 0x14"
  by (simp add: LP_DOUBLE_BUFFERING_defs)

lemma lp_set_double_buffering_flags_written:
  assumes "midi_out l = Some h"
  shows "written (log (snd (snd (lp_set_double_buffering_flags T (Some l) flags s))))
         = written (log s) @ [(h, [0xB0, 0x00, flags + 0x20])]"
  using assms write_and_drain_written [of T h "[0xB0, 0x00, flags + 0x20]" 3 s]
  by (cases "write_and_drain T h [0xB0, 0x00, flags + 0x20] 3 s")
     (simp add: lp_set_double_buffering_flags_def)

text \<open>
  C5, as stated: \<open>lp_set_double_buffering_flags\<close> with \<open>DISPLAY_1 | UPDATE_0 | COPY\<close>
  writes \<open>[0xB0, 0x00, 0x25]\<close>. On a session whose output handle is 2 it does not.
\<close>

theorem set_flags_display1_update0_copy_counterexample:
  "written (log (snd (snd (lp_set_double_buffering_flags
          (scripted 0 3 0 (\<lambda>h. 0) (3, 0x90, 0, 0x7F))
          (Some \<lparr>midi_in = Some 1, midi_out = Some 2, current_buff = 0\<rparr>)
          (LP_DOUBLE_BUFFERING_DISPLAY_1 OR LP_DOUBLE_BUFFERING_UPDATE_0
             OR LP_DOUBLE_BUFFERING_COPY) world0))))
     \<noteq> [(2, [0xB0, 0x00, 0x25])]"
  by (simp add: lp_set_double_buffering_flags_def write_and_drain_def snd_rawmidi_write_def
        snd_rawmidi_drain_def scripted_def world0_def LP_DOUBLE_BUFFERING_defs)

text \<open>
  C5, amended. On an opened session, \<open>lp_set_double_buffering_flags\<close> with
  \<open>DISPLAY_1 | UPDATE_0 | COPY\<close> hands exactly one buffer to \<open>snd_rawmidi_write\<close>, the
  3-byte message \<open>[0xB0, 0x00, 0x31]\<close> on the output handle, whatever the transport
  answers; the third byte is \<open>flags + 0x20\<close> with \<open>flags = 1 + 0 + 16\<close>.
\<close>

theorem set_flags_display1_update0_copy:
  assumes "midi_out l = Some h"
  shows "written (log (snd (snd (lp_set_double_buffering_flags T (Some l)
            (LP_DOUBLE_BUFFERING_DISPLAY_1 OR LP_DOUBLE_BUFFERING_UPDATE_0
               OR LP_DOUBLE_BUFFERING_COPY) s))))
         = written (log s) @ [(h, [0xB0, 0x00, 0x31])]
       \<and> (0x31 :: u8) = (LP_DOUBLE_BUFFERING_DISPLAY_1 OR LP_DOUBLE_BUFFERING_UPDATE_0
               OR LP_DOUBLE_BUFFERING_COPY) + 0x20"
  using lp_set_double_buffering_flags_written [OF assms, of T _ s]
  by (simp add: display1_update0_copy)

theorem set_flags_display1_update0_copy_witness:
  "midi_out \<lparr>midi_in = Some 1, midi_out = Some 2, current_buff = 0\<rparr> = Some 2
   \<and> written (log (snd (snd (lp_set_double_buffering_flags
          (scripted 0 3 0 (\<lambda>h. 0) (3, 0x90, 0, 0x7F))
          (Some \<lparr>midi_in = Some 1, midi_out = Some 2, current_buff = 0\<rparr>)
          (LP_DOUBLE_BUFFERING_DISPLAY_1 OR LP_DOUBLE_BUFFERING_UPDATE_0
             OR LP_DOUBLE_BUFFERING_COPY) world0))))
       = [(2, [0xB0, 0x00, 0x31])]"
  using set_flags_display1_update0_copy
          [of "\<lparr>midi_in = Some 1, midi_out = Some 2, current_buff = 0\<rparr>" 2
              "scripted 0 3 0 (\<lambda>h. 0) (3, 0x90, 0, 0x7F)" world0]
  by (simp add: world0_def display1_update0_copy)

section \<open>Opening and closing\<close>

lemma lp_open_current_buff:
  assumes "lp_open T (Some l) devicename nonblocking s = (r, lp', s')"
  shows "\<exists>l'. lp' = Some l' \<and> current_buff l' = current_buff l"
  using assms
  by (auto simp: lp_open_def Let_def split: prod.splits if_splits)

text \<open>
  C1. A successful \<open>lp_open\<close> should leave \<open>current_buff = 0\<close> whatever it held
  before. The function never assigns the field (\<open>lp_open_current_buff\<close>): on a
  session whose \<open>current_buff\<close> holds 7, with a transport whose open succeeds, it
  returns \<open>LP_OK\<close> and the field still holds 7.
\<close>

theorem lp_open_leaves_current_buff:
  "lp_open (scripted 0 3 0 (\<lambda>h. 0) (3, 0x90, 0, 0x7F))
      (Some \<lparr>midi_in = None, midi_out = None, current_buff = 7\<rparr>) ''hw:1,0,0'' True world0
   = (LP_OK, Some \<lparr>midi_in = Some 1, midi_out = Some 2, current_buff = 7\<rparr>,
      \<lparr>log = [Open ''hw:1,0,0'' 2], dev = ()\<rparr>)"
  by (simp add: lp_open_def snd_rawmidi_open_def scripted_def world0_def LP_OK_def
        SND_RAWMIDI_NONBLOCK_def)

lemma lp_close_input_failure:
  assumes "midi_in l = Some h" and "rm_close T h (dev s) = (r, d)" and "sint r < 0"
  shows "lp_close T (Some l) s
         = (LP_ERROR_MIDI_CLOSE, Some l, \<lparr>log = log s @ [Close h], dev = d\<rparr>)"
  using assms by (simp add: lp_close_def snd_rawmidi_close_def)

text \<open>
  C2. When closing the input direction fails, \<open>lp_close\<close> should still try to close
  the output direction before reporting the failure. With a transport whose close fails
  on the input handle 1 only, the call returns \<open>LP_ERROR_MIDI_CLOSE\<close> after the single
  transport call \<open>Close 1\<close>: the output handle 2 is never handed to \<open>snd_rawmidi_close\<close>.
  It is so for every transport (\<open>lp_close_input_failure\<close>).
\<close>

theorem lp_close_input_failure_skips_output:
  "lp_close (scripted 0 3 0 (\<lambda>h. if h = 1 then - 1 else 0) (3, 0x90, 0, 0x7F))
      (Some \<lparr>midi_in = Some 1, midi_out = Some 2, current_buff = 0\<rparr>) world0
   = (LP_ERROR_MIDI_CLOSE, Some \<lparr>midi_in = Some 1, midi_out = Some 2, current_buff = 0\<rparr>,
      \<lparr>log = [Close 1], dev = ()\<rparr>)"
  by (simp add: lp_close_def snd_rawmidi_close_def scripted_def world0_def)

section \<open>Input events\<close>

lemma lp_check_event_undecoded:
  assumes "midi_in l = Some h" and "rm_read T h 3 (dev s) = ((3, b0, b1, b2), d)"
    and "b0 \<noteq> 0x90" and "b0 \<noteq> 0xB0"
  shows "lp_check_event T (Some l) event s
         = (1, Some l, event, \<lparr>log = log s @ [Read h 3], dev = d\<rparr>)"
  using assms
  by (simp add: lp_check_event_def snd_rawmidi_read_def decode_event_def EAGAIN_def
        split: option.splits)

text \<open>
  C3. A complete 3-byte read whose status byte is neither \<open>0x90\<close> nor \<open>0xB0\<close> should
  yield no event (return 0). On the read \<open>[0x80, 0x10, 0x7F]\<close> the call returns 1 and
  leaves the caller's event as it was. It is so for every such status byte and every
  transport (\<open>lp_check_event_undecoded\<close>).
\<close>

theorem lp_check_event_other_status:
  "lp_check_event (scripted 0 3 0 (\<lambda>h. 0) (3, 0x80, 0x10, 0x7F))
      (Some \<lparr>midi_in = Some 1, midi_out = Some 2, current_buff = 0\<rparr>)
      (Some \<lparr>type = LP_EVENT_RELEASED, note_x = 5, note_y = 6\<rparr>) world0
   = (1, Some \<lparr>midi_in = Some 1, midi_out = Some 2, current_buff = 0\<rparr>,
      Some \<lparr>type = LP_EVENT_RELEASED, note_x = 5, note_y = 6\<rparr>,
      \<lparr>log = [Read 1 3], dev = ()\<rparr>)"
  by (simp add: lp_check_event_def snd_rawmidi_read_def decode_event_def scripted_def
        world0_def EAGAIN_def)

section \<open>The grid message\<close>

lemma length_memcpy: "length (memcpy dst off src n) = length dst"
  by (induction n) simp_all

lemma length_cols_loop: "length (cols_loop ns i j buf) = length buf"
proof (induction ns i j buf rule: cols_loop.induct)
  case (1 ns i j msg_buff)
  then show ?case
    by (subst cols_loop.simps) (simp add: length_memcpy)
qed

lemma length_rows_loop: "length (rows_loop ns i buf) = length buf"
proof (induction ns i buf rule: rows_loop.induct)
  case (1 ns i msg_buff)
  then show ?case
    by (subst rows_loop.simps) (simp add: length_cols_loop)
qed

lemma length_grid_msg_buff: "length (grid_msg_buff ns) = 192"
  by (simp add: grid_msg_buff_def length_rows_loop LP_ROWS_def LP_COLS_def)

text \<open>
  The layout of the grid message: for a grid of \<open>LP_ROWS * LP_COLS\<close> notes the two
  loops fill the buffer with the notes' 3-byte commands in order, whatever the buffer
  held before (\<open>rows_loop_layout\<close> with \<open>i = 0\<close>).
\<close>

lemma memcpy3:
  assumes "off + 3 \<le> length dst"
  shows "memcpy dst off [a, b, c] 3 = take off dst @ [a, b, c] @ drop (off + 3) dst"
proof -
  have "memcpy dst off [a, b, c] 3 = dst[off := a, off + 1 := b, off + 2 := c]"
    by (simp add: numeral_3_eq_3)
  also have "\<dots> = take off dst @ [a, b, c] @ drop (off + 3) dst"
    using assms
    by (intro nth_equalityI) (auto simp: nth_append nth_list_update nth_Cons' min_def)
  finally show ?thesis .
qed

lemma length_concat_command_buff: "length (concat (map command_buff xs)) = 3 * length xs"
  by (induction xs) (simp_all add: command_buff_def)

lemma grid_step:
  assumes "k < length ns" and "length buf0 = 3 * length ns"
  shows "memcpy (concat (map command_buff (take k ns)) @ drop (3 * k) buf0) (3 * k)
           (command_buff (ns ! k)) 3
         = concat (map command_buff (take (Suc k) ns)) @ drop (3 * Suc k) buf0"
proof -
  let ?P = "concat (map command_buff (take k ns))"
  have lenP: "length ?P = 3 * k"
    using assms(1) by (simp add: length_concat_command_buff)
  have fits: "3 * k + 3 \<le> length (?P @ drop (3 * k) buf0)"
    using assms lenP by simp
  obtain a b c where cmd: "command_buff (ns ! k) = [a, b, c]"
    by (simp add: command_buff_def)
  have "memcpy (?P @ drop (3 * k) buf0) (3 * k) [a, b, c] 3
        = take (3 * k) (?P @ drop (3 * k) buf0) @ [a, b, c]
            @ drop (3 * k + 3) (?P @ drop (3 * k) buf0)"
    by (rule memcpy3 [OF fits])
  also have "\<dots> = ?P @ [a, b, c] @ drop (3 * Suc k) buf0"
    using lenP by (simp add: add.commute)
  also have "\<dots> = concat (map command_buff (take (Suc k) ns)) @ drop (3 * Suc k) buf0"
    using assms(1) cmd by (simp add: take_Suc_conv_app_nth)
  finally show ?thesis using cmd by simp
qed

lemma cols_loop_layout:
  assumes "length ns = LP_ROWS * LP_COLS" and "length buf0 = 3 * length ns"
    and "i < LP_ROWS" and "j \<le> LP_COLS"
  shows "cols_loop ns i j
           (concat (map command_buff (take (i * LP_COLS + j) ns)) @ drop (3 * (i * LP_COLS + j)) buf0)
         = concat (map command_buff (take (Suc i * LP_COLS) ns)) @ drop (3 * (Suc i * LP_COLS)) buf0"
  using assms(4)
proof (induction "LP_COLS - j" arbitrary: j)
  case 0
  then have "j = LP_COLS" by simp
  then show ?case by (subst cols_loop.simps) (simp add: add.commute)
next
  case (Suc n)
  then have j: "j < LP_COLS" by simp
  have k: "i * LP_COLS + j < length ns"
    using assms(1,3) j by (simp add: LP_ROWS_def LP_COLS_def)
  have idx: "i * LP_ROWS + j = i * LP_COLS + j"
    by (simp add: LP_ROWS_def LP_COLS_def)
  have step: "memcpy (concat (map command_buff (take (i * LP_COLS + j) ns))
                  @ drop (3 * (i * LP_COLS + j)) buf0) (3 * (i * LP_COLS + j))
                 (command_buff (ns ! (i * LP_ROWS + j))) 3
        = concat (map command_buff (take (i * LP_COLS + (j + 1)) ns))
            @ drop (3 * (i * LP_COLS + (j + 1))) buf0"
    using grid_step [OF k assms(2)] by (simp add: idx)
  have "n = LP_COLS - (j + 1)" "j + 1 \<le> LP_COLS" using Suc.hyps(2) j by simp_all
  from Suc.hyps(1) [OF this] show ?case
    using j by (subst cols_loop.simps) (simp only: step if_True)
qed

lemma rows_loop_layout:
  assumes "length ns = LP_ROWS * LP_COLS" and "length buf0 = 3 * length ns"
    and "i \<le> LP_ROWS"
  shows "rows_loop ns i
           (concat (map command_buff (take (i * LP_COLS) ns)) @ drop (3 * (i * LP_COLS)) buf0)
         = concat (map command_buff ns)"
  using assms(3)
proof (induction "LP_ROWS - i" arbitrary: i)
  case 0
  then have "i = LP_ROWS" by simp
  then show ?case using assms(1,2) by (subst rows_loop.simps) simp
next
  case (Suc n)
  then have i: "i < LP_ROWS" by simp
  have "n = LP_ROWS - (i + 1)" "i + 1 \<le> LP_ROWS" using Suc.hyps(2) i by simp_all
  from Suc.hyps(1) [OF this] cols_loop_layout [OF assms(1,2) i, of 0]
  show ?case
    using i by (subst rows_loop.simps) simp
qed

lemma grid_msg_buff_layout:
  assumes "length ns = LP_ROWS * LP_COLS"
  shows "grid_msg_buff ns = concat (map command_buff ns)"
  using rows_loop_layout [OF assms, of "replicate (3 * LP_ROWS * LP_COLS) 0" 0] assms
  by (simp add: grid_msg_buff_def)

text \<open>
  C9. On an opened session and a grid of 64 notes, when the transport answers the write
  of the 192-byte grid message with a count below 192 (a short count, or a negative
  error code), \<open>lp_set_notes\<close> returns \<open>LP_ERROR_MIDI_WRITE\<close>. The session is returned
  as it was, so \<open>current_buff\<close> is unchanged, and the transport sees that one write
  and nothing after it: no retry and no drain.
\<close>

theorem lp_set_notes_short_write:
  assumes "midi_out l = Some h" and "length ns = LP_ROWS * LP_COLS"
    and "rm_write T h (grid_msg_buff ns) (dev s) = (n, d)" and "sint n < 192"
  shows "lp_set_notes T (Some l) (Some ns) s
         = (LP_ERROR_MIDI_WRITE, Some l, \<lparr>log = log s @ [Write h (grid_msg_buff ns)], dev = d\<rparr>)
       \<and> length (grid_msg_buff ns) = 192"
proof -
  have "n \<noteq> of_nat (3 * LP_ROWS * LP_COLS)"
    using assms(4) by (auto simp: LP_ROWS_def LP_COLS_def)
  with assms(3) have "write_and_drain T h (grid_msg_buff ns) (of_nat (3 * LP_ROWS * LP_COLS)) s
      = (LP_ERROR_MIDI_WRITE, \<lparr>log = log s @ [Write h (grid_msg_buff ns)], dev = d\<rparr>)"
    by (rule write_and_drain_short)
  with assms(1) show ?thesis
    by (simp add: lp_set_notes_def length_grid_msg_buff)
qed

theorem lp_set_notes_short_write_witness:
  "midi_out \<lparr>midi_in = Some 1, midi_out = Some 2, current_buff = 1\<rparr> = Some 2
   \<and> length (replicate 64 (LP_NOTE LP_NOTE_ON (LP_KEY 0 0) (LP_COLOR 3 0 0))) = LP_ROWS * LP_COLS
   \<and> sint (100 :: ssize_t) < 192
   \<and> fst (lp_set_notes (scripted 0 100 0 (\<lambda>h. 0) (3, 0x90, 0, 0x7F))
        (Some \<lparr>midi_in = Some 1, midi_out = Some 2, current_buff = 1\<rparr>)
        (Some (replicate 64 (LP_NOTE LP_NOTE_ON (LP_KEY 0 0) (LP_COLOR 3 0 0)))) world0)
      = LP_ERROR_MIDI_WRITE
   \<and> fst (snd (lp_set_notes (scripted 0 100 0 (\<lambda>h. 0) (3, 0x90, 0, 0x7F))
        (Some \<lparr>midi_in = Some 1, midi_out = Some 2, current_buff = 1\<rparr>)
        (Some (replicate 64 (LP_NOTE LP_NOTE_ON (LP_KEY 0 0) (LP_COLOR 3 0 0)))) world0))
      = Some \<lparr>midi_in = Some 1, midi_out = Some 2, current_buff = 1\<rparr>"
  using lp_set_notes_short_write
          [of "\<lparr>midi_in = Some 1, midi_out = Some 2, current_buff = 1\<rparr>" 2
              "replicate 64 (LP_NOTE LP_NOTE_ON (LP_KEY 0 0) (LP_COLOR 3 0 0))"
              "scripted 0 100 0 (\<lambda>h. 0) (3, 0x90, 0, 0x7F)" world0 100 "()"]
  by (simp add: scripted_def LP_ROWS_def LP_COLS_def)

section \<open>Swapping buffers\<close>

lemma lp_set_double_buffering_flags_session:
  "fst (snd (lp_set_double_buffering_flags T lp flags s)) = lp"
  by (simp add: lp_set_double_buffering_flags_def split: option.splits prod.splits)

lemma lp_swap_buffers_step:
  assumes "midi_out l = Some h" and "lp_swap_buffers T (Some l) s = (r, lp', s')"
  shows "lp' = Some (l\<lparr>current_buff := (if current_buff l = 0 then 1 else 0)\<rparr>)
       \<and> written (log s') = written (log s)
            @ [(h, [0xB0, 0x00, (if current_buff l = 0 then 0x11 else 0x14) + 0x20])]"
proof (cases "current_buff l = 0")
  case True
  let ?l = "l\<lparr>current_buff := 1\<rparr>"
  from True assms have eq: "lp_set_double_buffering_flags T (Some ?l) 0x11 s = (r, lp', s')"
    by (simp add: lp_swap_buffers_def display1_update0_copy)
  have "midi_out ?l = Some h" using assms(1) by simp
  from lp_set_double_buffering_flags_written [OF this, of T "0x11" s]
       lp_set_double_buffering_flags_session [of T "Some ?l" "0x11" s] eq True
  show ?thesis by simp
next
  case False
  let ?l = "l\<lparr>current_buff := 0\<rparr>"
  from False assms have eq: "lp_set_double_buffering_flags T (Some ?l) 0x14 s = (r, lp', s')"
    by (simp add: lp_swap_buffers_def display0_update1_copy)
  have "midi_out ?l = Some h" using assms(1) by simp
  from lp_set_double_buffering_flags_written [OF this, of T "0x14" s]
       lp_set_double_buffering_flags_session [of T "Some ?l" "0x14" s] eq False
  show ?thesis by simp
qed

lemma buffer_roles:
  "display_buffer 0x11 = 1" "update_buffer 0x11 = 0" "copy_requested 0x11"
  "display_buffer 0x14 = 0" "update_buffer 0x14 = 1" "copy_requested 0x14"
  by (simp_all add: display_buffer_def update_buffer_def copy_requested_def
        LP_DOUBLE_BUFFERING_COPY_def)

lemma lp_swap_buffers_uninitialized:
  assumes "midi_out l = None"
  shows "lp_swap_buffers T (Some l) s = (LP_ERROR_UNINITIALIZED, Some l, s)"
  using assms by (simp add: lp_swap_buffers_def)

text \<open>
  C7. On a session with \<open>current_buff\<close> in \<open>{0, 1}\<close>, two calls of \<open>lp_swap_buffers\<close>
  in a row, whatever the transport answers, leave the session as it was before the
  first: the first call toggles \<open>current_buff\<close>, the second toggles it back. When the
  session is opened (its output handle is set), the two calls hand exactly two
  buffer-control messages \<open>[0xB0, 0, f + 0x20]\<close> to the output handle; the first
  displays the new current buffer and updates the old one, the second has the two roles
  exchanged, and both request the copy.
\<close>

theorem lp_swap_buffers_twice:
  assumes "current_buff l = 0 \<or> current_buff l = 1"
    and "lp_swap_buffers T (Some l) s = (r1, lp1, s1)"
    and "lp_swap_buffers T lp1 s1 = (r2, lp2, s2)"
  shows "lp2 = Some l
       \<and> (\<forall>h. midi_out l = Some h \<longrightarrow>
            (\<exists>l1. lp1 = Some l1 \<and> current_buff l1 = 1 - current_buff l)
          \<and> (\<exists>f1 f2.
                written (log s2) = written (log s)
                   @ [(h, [0xB0, 0x00, f1 + 0x20]), (h, [0xB0, 0x00, f2 + 0x20])]
              \<and> uint (display_buffer f1) = 1 - current_buff l
              \<and> uint (update_buffer f1) = current_buff l
              \<and> display_buffer f2 = update_buffer f1
              \<and> update_buffer f2 = display_buffer f1
              \<and> copy_requested f1 \<and> copy_requested f2))"
proof (cases "midi_out l")
  case None
  from lp_swap_buffers_uninitialized [OF None, of T s] assms(2)
  have "lp1 = Some l" "s1 = s" by simp_all
  with lp_swap_buffers_uninitialized [OF None, of T s] assms(3)
  have "lp2 = Some l" by simp
  with None show ?thesis by simp
next
  case (Some h)
  let ?c = "current_buff l"
  let ?l1 = "l\<lparr>current_buff := (if ?c = 0 then 1 else 0)\<rparr>"
  let ?f1 = "if ?c = 0 then 0x11 else 0x14 :: u8"
  let ?f2 = "if ?c = 0 then 0x14 else 0x11 :: u8"
  from lp_swap_buffers_step [OF Some assms(2)]
  have lp1: "lp1 = Some ?l1"
    and w1: "written (log s1) = written (log s) @ [(h, [0xB0, 0x00, ?f1 + 0x20])]"
    by simp_all
  have out1: "midi_out ?l1 = Some h" using Some by simp
  from assms(3) lp1 have "lp_swap_buffers T (Some ?l1) s1 = (r2, lp2, s2)" by simp
  from lp_swap_buffers_step [OF out1 this]
  have lp2: "lp2 = Some (?l1\<lparr>current_buff := (if current_buff ?l1 = 0 then 1 else 0)\<rparr>)"
    and w2: "written (log s2) = written (log s1)
               @ [(h, [0xB0, 0x00, (if current_buff ?l1 = 0 then 0x11 else 0x14) + 0x20])]"
    by simp_all
  from lp2 assms(1) have "lp2 = Some l" by auto
  moreover from lp1 assms(1) have "\<exists>l1. lp1 = Some l1 \<and> current_buff l1 = 1 - ?c" by auto
  moreover from w1 w2 assms(1)
  have "written (log s2) = written (log s)
          @ [(h, [0xB0, 0x00, ?f1 + 0x20]), (h, [0xB0, 0x00, ?f2 + 0x20])]"
    by auto
  moreover from assms(1) have "uint (display_buffer ?f1) = 1 - ?c"
    "uint (update_buffer ?f1) = ?c" "display_buffer ?f2 = update_buffer ?f1"
    "update_buffer ?f2 = display_buffer ?f1" "copy_requested ?f1" "copy_requested ?f2"
    by (auto simp: buffer_roles)
  ultimately have "lp2 = Some l
       \<and> (\<exists>l1. lp1 = Some l1 \<and> current_buff l1 = 1 - current_buff l)
       \<and> (\<exists>f1 f2.
             written (log s2) = written (log s)
                @ [(h, [0xB0, 0x00, f1 + 0x20]), (h, [0xB0, 0x00, f2 + 0x20])]
           \<and> uint (display_buffer f1) = 1 - current_buff l
           \<and> uint (update_buffer f1) = current_buff l
           \<and> display_buffer f2 = update_buffer f1
           \<and> update_buffer f2 = display_buffer f1
           \<and> copy_requested f1 \<and> copy_requested f2)"
    by blast
  then show ?thesis using Some by simp
qed

theorem lp_swap_buffers_twice_witness:
  "(current_buff \<lparr>midi_in = Some 1, midi_out = Some 2, current_buff = 1\<rparr> = 0
      \<or> current_buff \<lparr>midi_in = Some 1, midi_out = Some 2, current_buff = 1\<rparr> = 1)
   \<and> midi_out \<lparr>midi_in = Some 1, midi_out = Some 2, current_buff = 1\<rparr> = Some 2
   \<and> lp_swap_buffers (scripted 0 3 0 (\<lambda>h. 0) (3, 0x90, 0, 0x7F))
        (Some \<lparr>midi_in = Some 1, midi_out = Some 2, current_buff = 1\<rparr>) world0
      = (LP_OK, Some \<lparr>midi_in = Some 1, midi_out = Some 2, current_buff = 0\<rparr>,
         \<lparr>log = [Write 2 [0xB0, 0x00, 0x34], Drain 2], dev = ()\<rparr>)
   \<and> lp_swap_buffers (scripted 0 3 0 (\<lambda>h. 0) (3, 0x90, 0, 0x7F))
        (Some \<lparr>midi_in = Some 1, midi_out = Some 2, current_buff = 0\<rparr>)
        \<lparr>log = [Write 2 [0xB0, 0x00, 0x34], Drain 2], dev = ()\<rparr>
      = (LP_OK, Some \<lparr>midi_in = Some 1, midi_out = Some 2, current_buff = 1\<rparr>,
         \<lparr>log = [Write 2 [0xB0, 0x00, 0x34], Drain 2, Write 2 [0xB0, 0x00, 0x31], Drain 2],
          dev = ()\<rparr>)"
  using lp_swap_buffers_twice
          [of "\<lparr>midi_in = Some 1, midi_out = Some 2, current_buff = 1\<rparr>"
              "scripted 0 3 0 (\<lambda>h. 0) (3, 0x90, 0, 0x7F)" world0
              LP_OK "Some \<lparr>midi_in = Some 1, midi_out = Some 2, current_buff = 0\<rparr>"
              "\<lparr>log = [Write 2 [0xB0, 0x00, 0x34], Drain 2], dev = ()\<rparr>"
              LP_OK "Some \<lparr>midi_in = Some 1, midi_out = Some 2, current_buff = 1\<rparr>"
              "\<lparr>log = [Write 2 [0xB0, 0x00, 0x34], Drain 2, Write 2 [0xB0, 0x00, 0x31],
                      Drain 2], dev = ()\<rparr>"]
  by (simp add: lp_swap_buffers_def lp_set_double_buffering_flags_def write_and_drain_def
        snd_rawmidi_write_def snd_rawmidi_drain_def scripted_def world0_def
        LP_DOUBLE_BUFFERING_defs)

section \<open>Round trip of a grid note\<close>

lemma lp_set_note_written:
  assumes "midi_out l = Some h"
  shows "written (log (snd (snd (lp_set_note T (Some l) note s))))
         = written (log s) @ [(h, [state note, key note, color note])]"
  using assms write_and_drain_written [of T h "command_buff note" 3 s]
  by (cases "write_and_drain T h (command_buff note) 3 s")
     (simp add: lp_set_note_def command_buff_def)

lemma decode_grid_key:
  assumes "0 \<le> row" "row \<le> 7" "0 \<le> col" "col \<le> 7"
  shows "uint (word_of_int (LP_KEY row col) :: u8) = LP_KEY row col"
    and "(LP_KEY row col - (LP_KEY row col div 16) * 16) mod 9 = col"
    and "LP_KEY row col div 16 = row"
    and "(LP_KEY row col - row * 16) mod 9 = col"
proof -
  have b: "0 \<le> LP_KEY row col" "LP_KEY row col < 256"
    using assms by (simp_all add: LP_KEY_def)
  then show "uint (word_of_int (LP_KEY row col) :: u8) = LP_KEY row col"
    by (simp add: uint_word_of_int take_bit_eq_mod)
  show d: "LP_KEY row col div 16 = row"
    using assms by (simp add: LP_KEY_div)
  have "LP_KEY row col - (LP_KEY row col div 16) * 16 = col"
    unfolding d by (simp add: LP_KEY_def)
  then show "(LP_KEY row col - (LP_KEY row col div 16) * 16) mod 9 = col"
    using assms by simp
  then show "(LP_KEY row col - row * 16) mod 9 = col"
    unfolding d .
qed

lemma uint_small: "0 \<le> k \<Longrightarrow> k \<le> 7 \<Longrightarrow> uint (word_of_int k :: u8) = k"
  by (simp add: uint_word_of_int take_bit_eq_mod)

text \<open>
  C6. For every \<open>(row, col)\<close> in \<open>[0,7] \<times> [0,7]\<close> and every nonzero velocity byte:
  the message that \<open>lp_set_note\<close> writes for the note
  \<open>LP_NOTE(LP_NOTE_ON, LP_KEY(row, col), velocity)\<close> is \<open>[0x90, key, velocity]\<close>, and when
  a read delivers these three bytes, \<open>lp_check_event\<close> returns 1 with an event of type
  \<open>LP_EVENT_PRESSED\<close>, \<open>note_x = col\<close> and \<open>note_y = row\<close>.
\<close>

theorem note_roundtrip:
  assumes "0 \<le> row" "row \<le> 7" "0 \<le> col" "col \<le> 7" and "velocity \<noteq> 0"
    and "midi_out l = Some ho" and "midi_in l = Some hi"
    and "written (log (snd (snd (lp_set_note T (Some l)
            (LP_NOTE LP_NOTE_ON (LP_KEY row col) (uint velocity)) s))))
         = written (log s) @ [(ho, [b0, b1, b2])]"
    and "rm_read T' hi 3 (dev s') = ((3, b0, b1, b2), d')"
  shows "[b0, b1, b2] = [0x90, word_of_int (LP_KEY row col), velocity]
       \<and> (\<exists>e'. lp_check_event T' (Some l) (Some e) s'
                  = (1, Some l, Some e', \<lparr>log = log s' @ [Read hi 3], dev = d'\<rparr>)
              \<and> type e' = LP_EVENT_PRESSED
              \<and> uint (note_x e') = col \<and> uint (note_y e') = row)"
proof -
  from lp_set_note_written [OF assms(6), of T "LP_NOTE LP_NOTE_ON (LP_KEY row col) (uint velocity)" s]
    assms(8)
  have bytes: "b0 = 0x90" "b1 = word_of_int (LP_KEY row col)" "b2 = velocity"
    by (simp_all add: LP_NOTE_def LP_NOTE_ON_def)
  have v: "uint velocity > 0"
  proof -
    have "uint velocity \<noteq> 0" using assms(5) by (simp add: uint_0_iff)
    moreover have "0 \<le> uint velocity" by simp
    ultimately show ?thesis by linarith
  qed
  let ?e' = "e\<lparr>note_x := word_of_int col, note_y := word_of_int row, type := LP_EVENT_PRESSED\<rparr>"
  have dec: "decode_event (Some e) b0 b1 b2 = Some ?e'"
    using v by (simp add: decode_event_def bytes decode_grid_key [OF assms(1-4)])
  have "lp_check_event T' (Some l) (Some e) s'
          = (1, Some l, Some ?e', \<lparr>log = log s' @ [Read hi 3], dev = d'\<rparr>)"
    using assms(7,9) dec
    by (simp add: lp_check_event_def snd_rawmidi_read_def EAGAIN_def)
  moreover have "type ?e' = LP_EVENT_PRESSED" by simp
  moreover have "uint (note_x ?e') = col" "uint (note_y ?e') = row"
    using assms(1-4) by (simp_all add: uint_small)
  ultimately show ?thesis using bytes by blast
qed

theorem note_roundtrip_witness:
  "(0::int) \<le> 3 \<and> (3::int) \<le> 7 \<and> (0::int) \<le> 5 \<and> (5::int) \<le> 7 \<and> (0x7F :: u8) \<noteq> 0
   \<and> written (log (snd (snd (lp_set_note (scripted 0 3 0 (\<lambda>h. 0) (3, 0x90, 0x35, 0x7F))
          (Some \<lparr>midi_in = Some 1, midi_out = Some 2, current_buff = 0\<rparr>)
          (LP_NOTE LP_NOTE_ON (LP_KEY 3 5) (uint (0x7F :: u8))) world0))))
       = [(2, [0x90, 0x35, 0x7F])]
   \<and> rm_read (scripted 0 3 0 (\<lambda>h. 0) (3, 0x90, 0x35, 0x7F)) 1 3 (dev world0)
       = ((3, 0x90, 0x35, 0x7F), ())
   \<and> lp_check_event (scripted 0 3 0 (\<lambda>h. 0) (3, 0x90, 0x35, 0x7F))
        (Some \<lparr>midi_in = Some 1, midi_out = Some 2, current_buff = 0\<rparr>)
        (Some \<lparr>type = LP_EVENT_RELEASED, note_x = 0, note_y = 0\<rparr>) world0
       = (1, Some \<lparr>midi_in = Some 1, midi_out = Some 2, current_buff = 0\<rparr>,
          Some \<lparr>type = LP_EVENT_PRESSED, note_x = 5, note_y = 3\<rparr>,
          \<lparr>log = [Read 1 3], dev = ()\<rparr>)"
  using note_roundtrip
          [of 3 5 "0x7F" "\<lparr>midi_in = Some 1, midi_out = Some 2, current_buff = 0\<rparr>" 2 1
              "scripted 0 3 0 (\<lambda>h. 0) (3, 0x90, 0x35, 0x7F)" world0 "0x90" "0x35" "0x7F"
              "scripted 0 3 0 (\<lambda>h. 0) (3, 0x90, 0x35, 0x7F)" world0 "()"
              "\<lparr>type = LP_EVENT_RELEASED, note_x = 0, note_y = 0\<rparr>"]
  by (simp add: lp_set_note_def lp_check_event_def decode_event_def command_buff_def
        write_and_drain_def snd_rawmidi_write_def snd_rawmidi_drain_def snd_rawmidi_read_def
        scripted_def world0_def LP_NOTE_def LP_NOTE_ON_def LP_KEY_def EAGAIN_def)

section \<open>Null sessions\<close>

text \<open>
  C10. \<open>lp_close\<close> on a null session pointer returns \<open>LP_OK\<close>; every other public
  function returns \<open>LP_ERROR_LP_NULL\<close> on a null session pointer, whatever its other
  arguments and whatever the transport.
\<close>

theorem null_session:
  "fst (lp_close T None s) = LP_OK
   \<and> fst (lp_open T None devicename nonblocking s) = LP_ERROR_LP_NULL
   \<and> fst (lp_reset T None s) = LP_ERROR_LP_NULL
   \<and> fst (lp_set_note T None note s) = LP_ERROR_LP_NULL
   \<and> fst (lp_set_notes T None notes s) = LP_ERROR_LP_NULL
   \<and> fst (lp_set_double_buffering_flags T None flags s) = LP_ERROR_LP_NULL
   \<and> fst (lp_swap_buffers T None s) = LP_ERROR_LP_NULL
   \<and> fst (lp_check_event T None event s) = LP_ERROR_LP_NULL
   \<and> fst (lp_enable_flashing T None s) = LP_ERROR_LP_NULL
   \<and> fst (lp_disable_flashing T None s) = LP_ERROR_LP_NULL
   \<and> LP_ERROR_LP_NULL \<noteq> LP_OK"
  by (simp add: lp_close_def lp_open_def lp_reset_def lp_set_note_def lp_set_notes_def
        lp_set_double_buffering_flags_def lp_swap_buffers_def lp_check_event_def
        lp_enable_flashing_def lp_disable_flashing_def LP_OK_def LP_ERROR_LP_NULL_def)

end
